theory Spec2Isabelle
  imports Main "HOL-Library.AList"
begin

section \<open>The page router of the App component\<close>

text \<open>
  \<^verbatim>\<open>src/frontend/src/App.tsx\<close> renders, between the header and the footer, a
  \<^verbatim>\<open><Routes>\<close> element with six \<^verbatim>\<open><Route path=... element=... />\<close> children.
  The page components are the default exports of \<^verbatim>\<open>pages/Home\<close>, \<^verbatim>\<open>pages/Products\<close>,
  \<^verbatim>\<open>pages/About\<close>, \<^verbatim>\<open>pages/News\<close>, \<^verbatim>\<open>pages/Solutions\<close> and \<^verbatim>\<open>pages/Contact\<close>; each
  takes no props and renders a fixed tree, so a page is identified by its name.
\<close>

datatype page = Home | Products | About | News | Solutions | Contact

text \<open>The children of \<^verbatim>\<open><Routes>\<close>, in the order of App.tsx, lines 21 to 26.\<close>

definition routes :: "(string \<times> page) list" where
  "routes =
    [(''/'', Home),
     (''/products'', Products),
     (''/about'', About),
     (''/news'', News),
     (''/solutions'', Solutions),
     (''/contact'', Contact)]"

subsection \<open>Matching a route path against a location\<close>

text \<open>
  \<^verbatim>\<open>Routes\<close> and \<^verbatim>\<open>Route\<close> are imported from \<^verbatim>\<open>react-router-dom\<close> (App.tsx, line 2); the
  \<^verbatim>\<open>element\<close> prop fixes the library at version 6 or later. Its matcher is not part of
  the repository. For a route without \<^verbatim>\<open>caseSensitive\<close> whose path has no \<^verbatim>\<open>:param\<close>
  and no \<^verbatim>\<open>*\<close> segment (all six routes are of this kind), the library's \<^verbatim>\<open>compilePath\<close>
  builds the regular expression
  \<^verbatim>\<open>"^" + path.replace(/\/*\*?$/, "").replace(/^\/*/, "/") + "\\/*$"\<close> with flag \<^verbatim>\<open>i\<close>:
  trailing slashes of the path are dropped, one leading slash is enforced, the pathname
  may end in any number of slashes, and letters are compared without regard to case.
  Below, \<open>compilePath\<close> is the literal part of that expression (between \<^verbatim>\<open>^\<close> and
  \<^verbatim>\<open>\/*$\<close>), and \<open>matchPath\<close> is the test of a pathname against the whole
  expression, on the pathname as the matcher receives it.
\<close>

definition toLowerCase :: "char \<Rightarrow> char" where
  "toLowerCase c =
    (case map_of (zip ''ABCDEFGHIJKLMNOPQRSTUVWXYZ'' ''abcdefghijklmnopqrstuvwxyz'') c of
       Some l \<Rightarrow> l
     | None \<Rightarrow> c)"

definition isSlash :: "char \<Rightarrow> bool" where
  "isSlash c = (c = CHR ''/'')"

definition stripTrailingSlashes :: "string \<Rightarrow> string" where
  "stripTrailingSlashes s = rev (dropWhile isSlash (rev s))"

definition ensureLeadingSlash :: "string \<Rightarrow> string" where
  "ensureLeadingSlash s = CHR ''/'' # dropWhile isSlash s"

definition compilePath :: "string \<Rightarrow> string" where
  "compilePath path = ensureLeadingSlash (stripTrailingSlashes path)"

definition matchPath :: "string \<Rightarrow> string \<Rightarrow> bool" where
  "matchPath path pathname =
    (let src = compilePath path; k = length src
     in map toLowerCase (take k pathname) = map toLowerCase src
        \<and> list_all isSlash (drop k pathname))"

subsection \<open>Decoding the location\<close>

text \<open>
  Before it tries the routes, the library's \<^verbatim>\<open>matchRoutes\<close> decodes the pathname with
  \<^verbatim>\<open>decodePath\<close>:
  \<^verbatim>\<open>value.split("/").map((v) => decodeURIComponent(v).replace(/\//g, "%2F")).join("/")\<close>,
  and \<^verbatim>\<open>value\<close> itself when \<^verbatim>\<open>decodeURIComponent\<close> throws. This is the decoding of the
  current releases of the library; the version in use is fixed outside the sources
  at hand.

  A \<open>string\<close> stands for the UTF-8 bytes of the JavaScript string. \<^verbatim>\<open>decodeURIComponent\<close>
  copies every character other than \<^verbatim>\<open>%\<close>. At a \<^verbatim>\<open>%\<close> it reads two hexadecimal digits as
  an octet; an octet below 128 is that character, any other octet must start a
  well-formed UTF-8 sequence of two to four octets, each written as \<^verbatim>\<open>%XX\<close>, which is the
  character with that encoding. Anything else is a \<^verbatim>\<open>URIError\<close>, here \<open>None\<close>.
\<close>

definition hexValue :: "char \<Rightarrow> nat option" where
  "hexValue c =
    map_of (zip ''0123456789abcdefABCDEF''
      [0, 1, 2, 3, 4, 5, 6, 7, 8, 9, 10, 11, 12, 13, 14, 15, 10, 11, 12, 13, 14, 15]) c"

fun readOctet :: "string \<Rightarrow> (nat \<times> string) option" where
  "readOctet (c # h1 # h2 # rest) =
    (if c = CHR ''%'' then
       (case (hexValue h1, hexValue h2) of
          (Some a, Some b) \<Rightarrow> Some (16 * a + b, rest)
        | _ \<Rightarrow> None)
     else None)"
| "readOctet _ = None"

fun readOctets :: "nat \<Rightarrow> string \<Rightarrow> (nat list \<times> string) option" where
  "readOctets 0 s = Some ([], s)"
| "readOctets (Suc n) s =
    (case readOctet s of
       None \<Rightarrow> None
     | Some (b, rest) \<Rightarrow>
         (case readOctets n rest of
            None \<Rightarrow> None
          | Some (bs, rest') \<Rightarrow> Some (b # bs, rest')))"

text \<open>The number of octets announced by the first one: its leading one bits.\<close>

definition sequenceLength :: "nat \<Rightarrow> nat option" where
  "sequenceLength b =
    (if b < 0x80 then Some 1
     else if 0xC0 \<le> b \<and> b < 0xE0 then Some 2
     else if 0xE0 \<le> b \<and> b < 0xF0 then Some 3
     else if 0xF0 \<le> b \<and> b < 0xF8 then Some 4
     else None)"

definition continuation :: "nat \<Rightarrow> bool" where
  "continuation b = (0x80 \<le> b \<and> b \<le> 0xBF)"

text \<open>
  Well-formed UTF-8: no overlong form, no surrogate, nothing above U+10FFFF.
\<close>

fun validUTF8 :: "nat list \<Rightarrow> bool" where
  "validUTF8 [b1] = (b1 < 0x80)"
| "validUTF8 [b1, b2] = (0xC2 \<le> b1 \<and> b1 \<le> 0xDF \<and> continuation b2)"
| "validUTF8 [b1, b2, b3] =
    ((b1 = 0xE0 \<and> 0xA0 \<le> b2 \<and> b2 \<le> 0xBF
      \<or> 0xE1 \<le> b1 \<and> b1 \<le> 0xEC \<and> continuation b2
      \<or> b1 = 0xED \<and> 0x80 \<le> b2 \<and> b2 \<le> 0x9F
      \<or> 0xEE \<le> b1 \<and> b1 \<le> 0xEF \<and> continuation b2)
     \<and> continuation b3)"
| "validUTF8 [b1, b2, b3, b4] =
    ((b1 = 0xF0 \<and> 0x90 \<le> b2 \<and> b2 \<le> 0xBF
      \<or> 0xF1 \<le> b1 \<and> b1 \<le> 0xF3 \<and> continuation b2
      \<or> b1 = 0xF4 \<and> 0x80 \<le> b2 \<and> b2 \<le> 0x8F)
     \<and> continuation b3 \<and> continuation b4)"
| "validUTF8 _ = False"

text \<open>
  The octets of the character that starts at a \<^verbatim>\<open>%\<close>; each of them takes three
  characters of the input.
\<close>

definition readCharacter :: "string \<Rightarrow> nat list option" where
  "readCharacter s =
    (case readOctet s of
       None \<Rightarrow> None
     | Some (b, rest) \<Rightarrow>
         (case sequenceLength b of
            None \<Rightarrow> None
          | Some n \<Rightarrow>
              (case readOctets (n - 1) rest of
                 None \<Rightarrow> None
               | Some (bs, rest') \<Rightarrow> if validUTF8 (b # bs) then Some (b # bs) else None)))"

fun decodeURIComponent :: "string \<Rightarrow> string option" where
  "decodeURIComponent [] = Some []"
| "decodeURIComponent (c # cs) =
    (if c = CHR ''%'' then
       (case readCharacter (c # cs) of
          None \<Rightarrow> None
        | Some octets \<Rightarrow>
            map_option (\<lambda>decoded. map char_of octets @ decoded)
              (decodeURIComponent (drop (3 * length octets - 1) cs)))
     else map_option (\<lambda>decoded. c # decoded) (decodeURIComponent cs))"

text \<open>\<^verbatim>\<open>value.split("/")\<close> and \<^verbatim>\<open>segments.join("/")\<close>.\<close>

fun splitSlash :: "string \<Rightarrow> string \<Rightarrow> string list" where
  "splitSlash segment [] = [segment]"
| "splitSlash segment (c # cs) =
    (if isSlash c then segment # splitSlash [] cs else splitSlash (segment @ [c]) cs)"

fun joinSlash :: "string list \<Rightarrow> string" where
  "joinSlash [] = []"
| "joinSlash [segment] = segment"
| "joinSlash (segment # segments) = segment @ CHR ''/'' # joinSlash segments"

text \<open>\<^verbatim>\<open>.replace(/\//g, "%2F")\<close> on a decoded segment.\<close>

definition encodeSlashes :: "string \<Rightarrow> string" where
  "encodeSlashes segment = concat (map (\<lambda>c. if isSlash c then ''%2F'' else [c]) segment)"

fun decodeSegments :: "string list \<Rightarrow> string list option" where
  "decodeSegments [] = Some []"
| "decodeSegments (segment # segments) =
    (case decodeURIComponent segment of
       None \<Rightarrow> None
     | Some decoded \<Rightarrow>
         map_option (\<lambda>rest. encodeSlashes decoded # rest) (decodeSegments segments))"

definition decodePath :: "string \<Rightarrow> string" where
  "decodePath v =
    (case decodeSegments (splitSlash [] v) of
       None \<Rightarrow> v
     | Some segments \<Rightarrow> joinSlash segments)"

text \<open>
  \<^verbatim>\<open><Routes>\<close> reads the current location, replaces an empty pathname by \<^verbatim>\<open>"/"\<close>
  (\<^verbatim>\<open>location.pathname || "/"\<close>), decodes it, and renders the element of the best
  matching route, or nothing (\<^verbatim>\<open>null\<close>) when no route matches. The library ranks the
  routes before it searches them; \<open>matchPath_routes_unique\<close> below shows that no
  pathname matches two routes of App.tsx, so the rank cannot change what is rendered
  and the search is written in the order of the source.
\<close>

definition Routes :: "(string \<times> 'e) list \<Rightarrow> string \<Rightarrow> 'e option" where
  "Routes children location_pathname =
    (let pathname = (if location_pathname = [] then ''/'' else location_pathname);
         decoded = decodePath pathname
     in map_option snd (find (\<lambda>r. matchPath (fst r) decoded) children))"

text \<open>The content of the \<^verbatim>\<open><Content className="app-content">\<close> element of \<^verbatim>\<open>App\<close>.\<close>

definition App_content :: "string \<Rightarrow> page option" where
  "App_content location_pathname = Routes routes location_pathname"

section \<open>The links of the Header component\<close>

text \<open>
  \<^verbatim>\<open>src/frontend/src/components/Layout/Header.tsx\<close>. A menu item of the three dropdown
  menus is an object with a \<^verbatim>\<open>key\<close>, a \<^verbatim>\<open>label\<close> and optional \<^verbatim>\<open>children\<close>; the label
  is either a \<^verbatim>\<open><Link to=...>\<close> element or a plain text. The texts are display strings
  only and are left out; an absent \<^verbatim>\<open>children\<close> is the empty list.
\<close>

datatype label = Link string | Text

datatype menu_item = MenuItem string label "menu_item list"

definition productMenuItems :: "menu_item list" where
  "productMenuItems =
    [MenuItem ''intercom-products'' Text
       [MenuItem ''digital-intercom'' (Link ''/products/digital-intercom'') [],
        MenuItem ''analog-intercom'' (Link ''/products/analog-intercom'') [],
        MenuItem ''ip-intercom'' (Link ''/products/ip-intercom'') []],
     MenuItem ''smart-home'' Text
       [MenuItem ''smart-locks'' (Link ''/products/smart-locks'') [],
        MenuItem ''smart-sensors'' (Link ''/products/smart-sensors'') [],
        MenuItem ''home-automation'' (Link ''/products/home-automation'') []],
     MenuItem ''security-monitoring'' Text
       [MenuItem ''cameras'' (Link ''/products/cameras'') [],
        MenuItem ''nvr-systems'' (Link ''/products/nvr-systems'') [],
        MenuItem ''alarm-systems'' (Link ''/products/alarm-systems'') []],
     MenuItem ''access-control'' Text
       [MenuItem ''face-recognition'' (Link ''/products/face-recognition'') [],
        MenuItem ''card-access'' (Link ''/products/card-access'') [],
        MenuItem ''mobile-access'' (Link ''/products/mobile-access'') []]]"

definition aboutMenuItems :: "menu_item list" where
  "aboutMenuItems =
    [MenuItem ''company-profile'' (Link ''/about/profile'') [],
     MenuItem ''company-history'' (Link ''/about/history'') [],
     MenuItem ''company-culture'' (Link ''/about/culture'') [],
     MenuItem ''company-honors'' (Link ''/about/honors'') [],
     MenuItem ''strategic-cooperation'' (Link ''/about/cooperation'') []]"

definition solutionMenuItems :: "menu_item list" where
  "solutionMenuItems =
    [MenuItem ''smart-community'' (Link ''/solutions/smart-community'') [],
     MenuItem ''smart-building'' (Link ''/solutions/smart-building'') [],
     MenuItem ''smart-hospital'' (Link ''/solutions/smart-hospital'') [],
     MenuItem ''smart-hotel'' (Link ''/solutions/smart-hotel'') [],
     MenuItem ''smart-office'' (Link ''/solutions/smart-office'') []]"

text \<open>
  An entry of \<^verbatim>\<open>navigationItems\<close> has a \<^verbatim>\<open>key\<close> and a \<^verbatim>\<open>label\<close>, which is either a
  \<^verbatim>\<open><Link>\<close> or a \<^verbatim>\<open><Dropdown menu={{ items }}>\<close> around a \<^verbatim>\<open><span>\<close> (no link of its
  own). The \<^verbatim>\<open>className\<close> of a label depends on \<^verbatim>\<open>currentPath\<close>; the link targets do not.
\<close>

datatype nav_label = NavLink string | Dropdown "menu_item list"

definition navigationItems :: "(string \<times> nav_label) list" where
  "navigationItems =
    [(''/'', NavLink ''/''),
     (''/about'', Dropdown aboutMenuItems),
     (''/products'', Dropdown productMenuItems),
     (''/solutions'', Dropdown solutionMenuItems),
     (''/news'', NavLink ''/news''),
     (''/cases'', NavLink ''/cases''),
     (''/service'', NavLink ''/service''),
     (''/contact'', NavLink ''/contact'')]"

text \<open>The \<^verbatim>\<open>to\<close> targets of the \<^verbatim>\<open><Link>\<close> elements, in the order of the tree.\<close>

fun label_links :: "label \<Rightarrow> string list" where
  "label_links (Link to) = [to]"
| "label_links Text = []"

fun menu_links :: "menu_item \<Rightarrow> string list" where
  "menu_links (MenuItem key l children) = label_links l @ concat (map menu_links children)"

fun nav_links :: "nav_label \<Rightarrow> string list" where
  "nav_links (NavLink to) = [to]"
| "nav_links (Dropdown items) = concat (map menu_links items)"

text \<open>
  The component returns the logo, a \<^verbatim>\<open><Link to="/">\<close>, followed by one list entry with
  \<^verbatim>\<open>item.label\<close> for every entry of \<^verbatim>\<open>navigationItems\<close>.
\<close>

definition Header_links :: "string list" where
  "Header_links = ''/'' # concat (map (\<lambda>item. nav_links (snd item)) navigationItems)"

section \<open>The Redux store\<close>

text \<open>
  \<^verbatim>\<open>src/frontend/src/store/index.ts\<close> exports
  \<^verbatim>\<open>configureStore({ reducer: { } })\<close>: the reducer map has no entry (its only content is
  a comment), and no \<^verbatim>\<open>preloadedState\<close>, \<^verbatim>\<open>middleware\<close> or \<^verbatim>\<open>enhancers\<close> option is given.
  \<^verbatim>\<open>configureStore\<close> (\<^verbatim>\<open>@reduxjs/toolkit\<close>) passes a reducer map to \<^verbatim>\<open>combineReducers\<close> and
  the result to \<^verbatim>\<open>createStore\<close> (\<^verbatim>\<open>redux\<close>); both are library code, not part of the
  repository, and are written out here as far as the state is concerned.

  An action is an object with a \<^verbatim>\<open>type\<close> string and any further content. The state of
  a combined reducer is an object with one property per reducer key, here an
  association list; \<^verbatim>\<open>undefined\<close> is \<open>None\<close>. A reducer that returns \<^verbatim>\<open>undefined\<close> makes
  the combined reducer throw.
\<close>

datatype 'p action = Action string "'p option"

type_synonym 's state = "(string \<times> 's) list"

type_synonym ('s, 'p) reducer = "'s option \<Rightarrow> 'p action \<Rightarrow> 's option"

datatype error = ReducerReturnedUndefined string

text \<open>
  The loop of \<^verbatim>\<open>combination\<close> over \<^verbatim>\<open>finalReducerKeys\<close>: it fills \<^verbatim>\<open>nextState\<close> and
  records in \<^verbatim>\<open>hasChanged\<close> whether some reducer returned a state other than the one it
  was given.
\<close>

fun combination_loop ::
  "(string \<times> ('s, 'p) reducer) list \<Rightarrow> 's state \<Rightarrow> 'p action \<Rightarrow> 's state \<Rightarrow> bool
    \<Rightarrow> error + ('s state \<times> bool)" where
  "combination_loop [] state action nextState hasChanged = Inr (nextState, hasChanged)"
| "combination_loop ((key, reducer) # rest) state action nextState hasChanged =
    (let previousStateForKey = map_of state key
     in case reducer previousStateForKey action of
          None \<Rightarrow> Inl (ReducerReturnedUndefined key)
        | Some nextStateForKey \<Rightarrow>
            combination_loop rest state action
              (AList.update key nextStateForKey nextState)
              (hasChanged \<or> Some nextStateForKey \<noteq> previousStateForKey))"

text \<open>
  \<^verbatim>\<open>combineReducers(reducers)\<close> returns \<^verbatim>\<open>combination(state = {}, action)\<close>. After the
  loop, \<^verbatim>\<open>hasChanged\<close> is also set when the number of reducer keys differs from the
  number of keys of the state; the result is \<^verbatim>\<open>nextState\<close> if \<^verbatim>\<open>hasChanged\<close>, else the
  state that was passed in.
\<close>

definition combineReducers ::
  "(string \<times> ('s, 'p) reducer) list \<Rightarrow> 's state option \<Rightarrow> 'p action \<Rightarrow> error + 's state" where
  "combineReducers reducers state_arg action =
    (let state = (case state_arg of None \<Rightarrow> [] | Some s \<Rightarrow> s)
     in case combination_loop reducers state action [] False of
          Inl e \<Rightarrow> Inl e
        | Inr (nextState, hasChanged) \<Rightarrow>
            (let hasChanged' = (hasChanged \<or> length reducers \<noteq> length (map fst state))
             in Inr (if hasChanged' then nextState else state)))"

text \<open>
  The store holds the root reducer and the current state. \<^verbatim>\<open>dispatch(action)\<close> assigns
  \<^verbatim>\<open>currentState = currentReducer(currentState, action)\<close>; when the reducer throws, the
  assignment does not happen and the exception leaves \<^verbatim>\<open>dispatch\<close>. \<^verbatim>\<open>createStore\<close>
  dispatches the action \<^verbatim>\<open>{ type: ActionTypes.INIT }\<close> once before it returns the store.
  Listeners and middleware do not write the state and are left out.
\<close>

record ('s, 'p) store =
  currentReducer :: "'s state option \<Rightarrow> 'p action \<Rightarrow> error + 's state"
  currentState :: "'s state option"

definition getState :: "('s, 'p) store \<Rightarrow> 's state option" where
  "getState st = currentState st"

definition dispatch :: "('s, 'p) store \<Rightarrow> 'p action \<Rightarrow> error + ('s, 'p) store" where
  "dispatch st action =
    (case currentReducer st (currentState st) action of
       Inl e \<Rightarrow> Inl e
     | Inr s \<Rightarrow> Inr (st\<lparr>currentState := Some s\<rparr>))"

definition createStore ::
  "('s state option \<Rightarrow> 'p action \<Rightarrow> error + 's state) \<Rightarrow> 's state option
    \<Rightarrow> error + ('s, 'p) store" where
  "createStore reducer preloadedState =
    dispatch \<lparr>currentReducer = reducer, currentState = preloadedState\<rparr>
      (Action ''@@redux/INIT'' None)"

definition configureStore :: "(string \<times> ('s, 'p) reducer) list \<Rightarrow> error + ('s, 'p) store" where
  "configureStore reducer = createStore (combineReducers reducer) None"

text \<open>The exported \<^verbatim>\<open>store\<close>.\<close>

definition store :: "error + ('s, 'p) store" where
  "store = configureStore []"

text \<open>
  A session dispatches actions to the store one after the other; an exception ends it.
\<close>

fun dispatch_all :: "error + ('s, 'p) store \<Rightarrow> 'p action list \<Rightarrow> error + ('s, 'p) store" where
  "dispatch_all st [] = st"
| "dispatch_all st (action # actions) =
    (case st of
       Inl e \<Rightarrow> Inl e
     | Inr s \<Rightarrow> dispatch_all (dispatch s action) actions)"

section \<open>Properties of the router\<close>


lemma toLowerCase_slash: "isSlash (toLowerCase c) = isSlash c"
  by (auto simp: toLowerCase_def isSlash_def split: option.splits if_splits)

lemma list_all_isSlash_lower: "list_all isSlash (map toLowerCase s) = list_all isSlash s"
  by (induction s) (simp_all add: toLowerCase_slash)

lemma strip_append_slashes:
  "list_all isSlash b \<Longrightarrow> stripTrailingSlashes (a @ b) = stripTrailingSlashes a"
  using dropWhile_append2 [of "rev b" isSlash "rev a"]
  by (simp add: stripTrailingSlashes_def list_all_iff)

lemma strip_id: "a \<noteq> [] \<Longrightarrow> \<not> isSlash (last a) \<Longrightarrow> stripTrailingSlashes a = a"
  by (cases a rule: rev_cases) (simp_all add: stripTrailingSlashes_def)

lemma strip_decomp: "\<exists>b. s = stripTrailingSlashes s @ b \<and> list_all isSlash b"
proof -
  let ?r = "rev s"
  have "?r = takeWhile isSlash ?r @ dropWhile isSlash ?r" by simp
  then have "s = rev (dropWhile isSlash ?r) @ rev (takeWhile isSlash ?r)"
    by (metis rev_append rev_rev_ident)
  moreover have "list_all isSlash (rev (takeWhile isSlash ?r))"
    by (simp add: list_all_iff) (meson set_takeWhileD)
  ultimately show ?thesis unfolding stripTrailingSlashes_def by blast
qed

lemma strip_nil_iff: "stripTrailingSlashes s = [] \<longleftrightarrow> list_all isSlash s"
  by (simp add: stripTrailingSlashes_def dropWhile_eq_Nil_conv list_all_iff)


lemma matchPath_static:
  assumes cp: "compilePath path = path"
    and low: "map toLowerCase path = path"
    and ne: "path \<noteq> []" and last: "\<not> isSlash (last path)"
  shows "matchPath path pathname \<longleftrightarrow> stripTrailingSlashes (map toLowerCase pathname) = path"
proof
  assume m: "matchPath path pathname"
  let ?k = "length path"
  from m cp low have t: "map toLowerCase (take ?k pathname) = path"
    and d: "list_all isSlash (drop ?k pathname)"
    by (simp_all add: matchPath_def Let_def)
  have "map toLowerCase pathname = map toLowerCase (take ?k pathname) @ map toLowerCase (drop ?k pathname)"
    by (metis append_take_drop_id map_append)
  with t have "map toLowerCase pathname = path @ map toLowerCase (drop ?k pathname)" by simp
  moreover from d have "list_all isSlash (map toLowerCase (drop ?k pathname))"
    by (simp add: list_all_isSlash_lower)
  ultimately show "stripTrailingSlashes (map toLowerCase pathname) = path"
    using strip_append_slashes strip_id [OF ne last] by simp
next
  assume s: "stripTrailingSlashes (map toLowerCase pathname) = path"
  obtain b where b: "map toLowerCase pathname = path @ b" and sl: "list_all isSlash b"
    using strip_decomp [of "map toLowerCase pathname"] s by auto
  have "map toLowerCase (take (length path) pathname) = path"
    using b by (metis append_eq_conv_conj take_map)
  moreover have "map toLowerCase (drop (length path) pathname) = b"
    using b by (metis append_eq_conv_conj drop_map)
  then have "list_all isSlash (drop (length path) pathname)"
    using sl list_all_isSlash_lower by metis
  ultimately show "matchPath path pathname"
    using cp low by (simp add: matchPath_def Let_def)
qed

lemma toLowerCase_eq_slash: "toLowerCase c = CHR ''/'' \<longleftrightarrow> c = CHR ''/''"
  using toLowerCase_slash [of c] by (simp add: isSlash_def)

lemma compilePath_root: "compilePath ''/'' = ''/''"
  by (simp add: compilePath_def ensureLeadingSlash_def stripTrailingSlashes_def isSlash_def)

lemma matchPath_root:
  "matchPath ''/'' pathname \<longleftrightarrow> pathname \<noteq> [] \<and> stripTrailingSlashes (map toLowerCase pathname) = []"
proof (cases pathname)
  case Nil
  then show ?thesis by (simp add: matchPath_def compilePath_root)
next
  case (Cons c cs)
  have sl: "toLowerCase CHR ''/'' = CHR ''/''" by (simp add: toLowerCase_eq_slash)
  show ?thesis
    by (simp add: Cons matchPath_def compilePath_root strip_nil_iff list_all_isSlash_lower
        sl toLowerCase_eq_slash isSlash_def)
qed

lemma compilePath_pages:
  "compilePath ''/products'' = ''/products''" "compilePath ''/about'' = ''/about''"
  "compilePath ''/news'' = ''/news''" "compilePath ''/solutions'' = ''/solutions''"
  "compilePath ''/contact'' = ''/contact''"
  by (simp_all add: compilePath_def ensureLeadingSlash_def stripTrailingSlashes_def isSlash_def)

lemma toLowerCase_pages:
  "map toLowerCase ''/products'' = ''/products''" "map toLowerCase ''/about'' = ''/about''"
  "map toLowerCase ''/news'' = ''/news''" "map toLowerCase ''/solutions'' = ''/solutions''"
  "map toLowerCase ''/contact'' = ''/contact''"
  by (simp_all add: toLowerCase_def)

lemma matchPath_pages:
  "matchPath ''/products'' p \<longleftrightarrow> stripTrailingSlashes (map toLowerCase p) = ''/products''"
  "matchPath ''/about'' p \<longleftrightarrow> stripTrailingSlashes (map toLowerCase p) = ''/about''"
  "matchPath ''/news'' p \<longleftrightarrow> stripTrailingSlashes (map toLowerCase p) = ''/news''"
  "matchPath ''/solutions'' p \<longleftrightarrow> stripTrailingSlashes (map toLowerCase p) = ''/solutions''"
  "matchPath ''/contact'' p \<longleftrightarrow> stripTrailingSlashes (map toLowerCase p) = ''/contact''"
  by (rule matchPath_static [OF compilePath_pages(1) toLowerCase_pages(1)], simp,
      simp add: isSlash_def)
    (rule matchPath_static [OF compilePath_pages(2) toLowerCase_pages(2)], simp,
      simp add: isSlash_def,
     rule matchPath_static [OF compilePath_pages(3) toLowerCase_pages(3)], simp,
      simp add: isSlash_def,
     rule matchPath_static [OF compilePath_pages(4) toLowerCase_pages(4)], simp,
      simp add: isSlash_def,
     rule matchPath_static [OF compilePath_pages(5) toLowerCase_pages(5)], simp,
      simp add: isSlash_def)

text \<open>
  No pathname matches two of the six routes, so the order in which the library tries
  them is immaterial.
\<close>

lemma matchPath_routes_unique:
  assumes "r \<in> set routes" "r' \<in> set routes"
    and "matchPath (fst r) pathname" "matchPath (fst r') pathname"
  shows "r = r'"
  using assms by (auto simp: routes_def matchPath_pages matchPath_root)
















section \<open>Properties of the header links\<close>

lemma Header_links_eq:
  "Header_links =
    [''/'', ''/'',
     ''/about/profile'', ''/about/history'', ''/about/culture'', ''/about/honors'',
     ''/about/cooperation'',
     ''/products/digital-intercom'', ''/products/analog-intercom'', ''/products/ip-intercom'',
     ''/products/smart-locks'', ''/products/smart-sensors'', ''/products/home-automation'',
     ''/products/cameras'', ''/products/nvr-systems'', ''/products/alarm-systems'',
     ''/products/face-recognition'', ''/products/card-access'', ''/products/mobile-access'',
     ''/solutions/smart-community'', ''/solutions/smart-building'',
     ''/solutions/smart-hospital'', ''/solutions/smart-hotel'', ''/solutions/smart-office'',
     ''/news'', ''/cases'', ''/service'', ''/contact'']"
  by (simp add: Header_links_def navigationItems_def aboutMenuItems_def productMenuItems_def
      solutionMenuItems_def)

lemma App_content_unrouted:
  "App_content ''/about/profile'' = None"
  "App_content ''/about/history'' = None"
  "App_content ''/about/culture'' = None"
  "App_content ''/about/honors'' = None"
  "App_content ''/about/cooperation'' = None"
  "App_content ''/products/digital-intercom'' = None"
  "App_content ''/products/analog-intercom'' = None"
  "App_content ''/products/ip-intercom'' = None"
  "App_content ''/products/smart-locks'' = None"
  "App_content ''/products/smart-sensors'' = None"
  "App_content ''/products/home-automation'' = None"
  "App_content ''/products/cameras'' = None"
  "App_content ''/products/nvr-systems'' = None"
  "App_content ''/products/alarm-systems'' = None"
  "App_content ''/products/face-recognition'' = None"
  "App_content ''/products/card-access'' = None"
  "App_content ''/products/mobile-access'' = None"
  "App_content ''/solutions/smart-community'' = None"
  "App_content ''/solutions/smart-building'' = None"
  "App_content ''/solutions/smart-hospital'' = None"
  "App_content ''/solutions/smart-hotel'' = None"
  "App_content ''/solutions/smart-office'' = None"
  "App_content ''/cases'' = None"
  "App_content ''/service'' = None"
  by code_simp+
lemma App_content_routed:
  "App_content ''/'' = Some Home" "App_content ''/news'' = Some News"
  "App_content ''/contact'' = Some Contact"
  by code_simp+

text \<open>
  C10: the links that the Header renders to a path for which \<^verbatim>\<open>App\<close> defines no
  \<^verbatim>\<open>Route\<close> are the five links of the about dropdown, the twelve of the product
  dropdown, the five of the solution dropdown, and the links to \<^verbatim>\<open>/cases\<close> and
  \<^verbatim>\<open>/service\<close>; these are also exactly the links of the Header at whose target the
  \<^verbatim>\<open>Routes\<close> element renders nothing, and they include every link of the three dropdowns.
\<close>

theorem C10_Header_links_without_route:
  "filter (\<lambda>to. to \<notin> set (map fst routes)) Header_links =
     concat (map menu_links (aboutMenuItems @ productMenuItems @ solutionMenuItems))
       @ [''/cases'', ''/service'']
   \<and> filter (\<lambda>to. App_content to = None) Header_links =
     concat (map menu_links (aboutMenuItems @ productMenuItems @ solutionMenuItems))
       @ [''/cases'', ''/service'']
   \<and> concat (map menu_links aboutMenuItems) =
       [''/about/profile'', ''/about/history'', ''/about/culture'', ''/about/honors'',
        ''/about/cooperation'']
   \<and> concat (map menu_links productMenuItems) =
       [''/products/digital-intercom'', ''/products/analog-intercom'',
        ''/products/ip-intercom'', ''/products/smart-locks'', ''/products/smart-sensors'',
        ''/products/home-automation'', ''/products/cameras'', ''/products/nvr-systems'',
        ''/products/alarm-systems'', ''/products/face-recognition'',
        ''/products/card-access'', ''/products/mobile-access'']
   \<and> concat (map menu_links solutionMenuItems) =
       [''/solutions/smart-community'', ''/solutions/smart-building'',
        ''/solutions/smart-hospital'', ''/solutions/smart-hotel'',
        ''/solutions/smart-office'']"
proof -
  have m: "concat (map menu_links aboutMenuItems) =
       [''/about/profile'', ''/about/history'', ''/about/culture'', ''/about/honors'',
        ''/about/cooperation'']"
    "concat (map menu_links productMenuItems) =
       [''/products/digital-intercom'', ''/products/analog-intercom'',
        ''/products/ip-intercom'', ''/products/smart-locks'', ''/products/smart-sensors'',
        ''/products/home-automation'', ''/products/cameras'', ''/products/nvr-systems'',
        ''/products/alarm-systems'', ''/products/face-recognition'',
        ''/products/card-access'', ''/products/mobile-access'']"
    "concat (map menu_links solutionMenuItems) =
       [''/solutions/smart-community'', ''/solutions/smart-building'',
        ''/solutions/smart-hospital'', ''/solutions/smart-hotel'',
        ''/solutions/smart-office'']"
    by (simp_all add: aboutMenuItems_def productMenuItems_def solutionMenuItems_def)
  have r: "filter (\<lambda>to. to \<notin> set (map fst routes)) Header_links =
     concat (map menu_links (aboutMenuItems @ productMenuItems @ solutionMenuItems))
       @ [''/cases'', ''/service'']"
    by (simp add: m Header_links_eq routes_def)
  have c: "filter (\<lambda>to. App_content to = None) Header_links =
     concat (map menu_links (aboutMenuItems @ productMenuItems @ solutionMenuItems))
       @ [''/cases'', ''/service'']"
    by (simp add: m Header_links_eq App_content_unrouted App_content_routed)
  from m r c show ?thesis by blast
qed

section \<open>Properties of the store\<close>

lemma store_eq:
  "(store :: error + ('s, 'p) store) =
     Inr \<lparr>currentReducer = combineReducers [], currentState = Some []\<rparr>"
  by (simp add: store_def configureStore_def createStore_def dispatch_def combineReducers_def)

lemma dispatch_empty_reducers:
  "dispatch \<lparr>currentReducer = combineReducers [], currentState = Some []\<rparr> action =
     Inr \<lparr>currentReducer = combineReducers [], currentState = Some []\<rparr>"
  by (simp add: dispatch_def combineReducers_def)

lemma dispatch_all_store: "dispatch_all store actions = store"
  by (induction actions) (simp_all add: store_eq dispatch_empty_reducers)

text \<open>
  C9: the exported store is configured with an empty reducer map. Whatever actions have
  been dispatched to it before, a further dispatch returns without an exception and
  leaves the store as it was: the state after the dispatch is the state before it, and
  over the whole session the state is the initial one, the object without properties.
\<close>

theorem C9_store_dispatch_leaves_state:
  fixes action :: "'p action" and actions :: "'p action list"
  shows "dispatch_all store (actions @ [action])
           = (dispatch_all store actions :: error + ('s, 'p) store)
   \<and> map_sum id getState (dispatch_all store actions :: error + ('s, 'p) store)
           = Inr (Some [])
   \<and> map_sum id getState (store :: error + ('s, 'p) store) = Inr (Some [])"
proof -
  have "map_sum id getState (store :: error + ('s, 'p) store) = Inr (Some [])"
    by (simp add: store_eq getState_def)
  then show ?thesis by (simp add: dispatch_all_store)
qed

end
